theory Spec2Isabelle
  imports Main
begin

section \<open>dbt-oracle: credentials and connection manager\<close>

text \<open>
  A shallow embedding of \<^verbatim>\<open>dbt/adapters/oracle/connections.py\<close>.
  Python strings are HOL strings (a character stands for one code point below 256),
  \<^verbatim>\<open>Optional[T]\<close> is \<open>T option\<close>, exceptions are values of the type \<open>exn\<close> and every
  operation that can raise returns \<open>exn + 'a\<close> together with the world it leaves behind.
\<close>

subsection \<open>Python helpers\<close>

text \<open>Truthiness of an \<^verbatim>\<open>Optional[str]\<close>: \<^verbatim>\<open>None\<close> and the empty string are falsy.\<close>

definition truthy_str :: "string option \<Rightarrow> bool" where
  "truthy_str x = (case x of None \<Rightarrow> False | Some s \<Rightarrow> s \<noteq> [])"

text \<open>Truthiness of an \<^verbatim>\<open>Optional[bool]\<close>.\<close>

definition truthy_bool :: "bool option \<Rightarrow> bool" where
  "truthy_bool x = (case x of None \<Rightarrow> False | Some b \<Rightarrow> b)"

text \<open>\<^verbatim>\<open>str(n)\<close> for an integer: decimal digits, a minus sign for negative numbers.\<close>

definition digit_char :: "nat \<Rightarrow> char" where
  "digit_char d = char_of (48 + d)"

fun str_nat :: "nat \<Rightarrow> string" where
  "str_nat n = (if n < 10 then [digit_char n] else str_nat (n div 10) @ [digit_char (n mod 10)])"

declare str_nat.simps [simp del]

definition str_int :: "int \<Rightarrow> string" where
  "str_int i = (if i < 0 then CHR ''-'' # str_nat (nat (- i)) else str_nat (nat i))"

text \<open>What an f-string prints for an optional value: \<^verbatim>\<open>None\<close> prints as the word None.\<close>

definition format_opt_str :: "string option \<Rightarrow> string" where
  "format_opt_str x = (case x of None \<Rightarrow> ''None'' | Some s \<Rightarrow> s)"

definition format_opt_int :: "int option \<Rightarrow> string" where
  "format_opt_int x = (case x of None \<Rightarrow> ''None'' | Some i \<Rightarrow> str_int i)"

text \<open>
  What it means for a string to be the way Python prints an optional integer, said
  without the printing function: the word None for \<^verbatim>\<open>None\<close>; otherwise the decimal numeral
  of the number (digits only, no leading zero, its value the number), after a minus sign
  when the number is negative.
\<close>

definition is_digit :: "char \<Rightarrow> bool" where
  "is_digit c = (48 \<le> (of_char c :: nat) \<and> (of_char c :: nat) \<le> 57)"

definition decimal_value :: "string \<Rightarrow> nat" where
  "decimal_value s = foldl (\<lambda>acc c. 10 * acc + ((of_char c :: nat) - 48)) 0 s"

definition is_decimal_of :: "string \<Rightarrow> nat \<Rightarrow> bool" where
  "is_decimal_of s n \<longleftrightarrow>
     s \<noteq> [] \<and> list_all is_digit s \<and> decimal_value s = n \<and> (s = ''0'' \<or> hd s \<noteq> CHR ''0'')"

definition prints_as :: "int option \<Rightarrow> string \<Rightarrow> bool" where
  "prints_as x s =
     (case x of
        None \<Rightarrow> s = ''None''
      | Some i \<Rightarrow>
          if i < 0 then s \<noteq> [] \<and> hd s = CHR ''-'' \<and> is_decimal_of (tl s) (nat (- i))
          else is_decimal_of s (nat i))"

text \<open>
  \<^verbatim>\<open>str.strip()\<close>: removes leading and trailing characters for which \<^verbatim>\<open>isspace()\<close> holds
  (below code point 256: 9 to 13, 28 to 32, 133 and 160).
\<close>

definition is_space :: "char \<Rightarrow> bool" where
  "is_space c = (let n = (of_char c :: nat) in
     (9 \<le> n \<and> n \<le> 13) \<or> (28 \<le> n \<and> n \<le> 32) \<or> n = 133 \<or> n = 160)"

definition strip :: "string \<Rightarrow> string" where
  "strip s = rev (dropWhile is_space (rev (dropWhile is_space s)))"

subsection \<open>Credentials\<close>

datatype OracleConnectionMethod = HOST | TNS | CONNECTION_STRING

text \<open>
  \<^verbatim>\<open>OracleAdapterCredentials\<close>: the fields \<open>database\<close> and \<open>schema\<close> come from the base
  class \<^verbatim>\<open>Credentials\<close> of the host tool, the others are declared by the dataclass.
\<close>

record OracleAdapterCredentials =
  database :: string
  schema :: string
  user :: string
  password :: string
  port :: "int option"
  host :: "string option"
  service :: "string option"
  connection_string :: "string option"
  debug_log_commands :: "bool option"
  cursor_precode :: "string option"

definition connection_method :: "OracleAdapterCredentials \<Rightarrow> OracleConnectionMethod" where
  "connection_method self =
     (if truthy_str (connection_string self) then CONNECTION_STRING
      else if truthy_str (host self) then HOST
      else TNS)"

text \<open>
  \<^verbatim>\<open>get_dsn\<close>. In the second branch the method is \<^verbatim>\<open>CONNECTION_STRING\<close>, so the field is a
  non-empty string and \<open>the\<close> reads it. The last line is the f-string
  \<^verbatim>\<open>f"{self.host}:{self.port}/{service}"\<close>.
\<close>

definition get_dsn :: "OracleAdapterCredentials \<Rightarrow> string" where
  "get_dsn self =
     (let method = connection_method self in
      if method = TNS then database self
      else if method = CONNECTION_STRING then the (connection_string self)
      else
        (let service_name =
           (if truthy_str (service self) then format_opt_str (service self) else database self)
         in format_opt_str (host self) @ '':'' @ format_opt_int (port self) @ ''/'' @ service_name))"

text \<open>The name an enum member prints with in an f-string.\<close>

definition format_method :: "OracleConnectionMethod \<Rightarrow> string" where
  "format_method m = (case m of
       HOST \<Rightarrow> ''OracleConnectionMethod.HOST''
     | TNS \<Rightarrow> ''OracleConnectionMethod.TNS''
     | CONNECTION_STRING \<Rightarrow> ''OracleConnectionMethod.CONNECTION_STRING'')"

subsection \<open>Exceptions\<close>

text \<open>
  The exception classes the module meets. The driver's \<^verbatim>\<open>cx_Oracle.DatabaseError\<close> and
  \<^verbatim>\<open>cx_Oracle.InterfaceError\<close> both derive from \<^verbatim>\<open>cx_Oracle.Error\<close>; the host tool's
  \<^verbatim>\<open>FailedToConnectException\<close> derives from \<^verbatim>\<open>DatabaseException\<close>, which derives from
  \<^verbatim>\<open>RuntimeException\<close>; \<^verbatim>\<open>KeyboardInterrupt\<close> stands for the exceptions that are not
  instances of \<^verbatim>\<open>Exception\<close>. An exception carries its message (\<^verbatim>\<open>str(e)\<close>) and its
  \<^verbatim>\<open>__cause__\<close>.
\<close>

datatype exn_class =
    CxDatabaseError
  | CxInterfaceError
  | DbtRuntimeException
  | DbtDatabaseException
  | DbtFailedToConnectException
  | PyException
  | PyAttributeError
  | PyKeyboardInterrupt

datatype exn = Exn (class_of: exn_class) (exn_msg: string) (exn_cause: "exn option")

definition isinstance_DatabaseError :: "exn \<Rightarrow> bool" where
  "isinstance_DatabaseError e = (class_of e = CxDatabaseError)"

definition isinstance_cx_Error :: "exn \<Rightarrow> bool" where
  "isinstance_cx_Error e = (class_of e = CxDatabaseError \<or> class_of e = CxInterfaceError)"

definition isinstance_RuntimeException :: "exn \<Rightarrow> bool" where
  "isinstance_RuntimeException e =
     (class_of e = DbtRuntimeException \<or> class_of e = DbtDatabaseException
      \<or> class_of e = DbtFailedToConnectException)"

definition isinstance_Exception :: "exn \<Rightarrow> bool" where
  "isinstance_Exception e = (class_of e \<noteq> PyKeyboardInterrupt)"

subsection \<open>Connections, effects and the environment\<close>

type_synonym handle_id = nat
type_synonym cursor_id = nat
type_synonym bindings = "(string \<times> string) list"

text \<open>Everything the module does to the outside, in the order it happens.\<close>

datatype event =
    LogDebug string
  | LogInfo string
  | LogError string
  | FireEvent string
  | DriverConnect string string string
  | DriverCursor handle_id
  | DriverExecute cursor_id string "bindings option"
  | DriverCommit handle_id
  | DriverClose "handle_id option"
  | HostBegin
  | HostRelease

text \<open>The host tool's connection object, with the fields this module reads and writes.\<close>

record DBTConnection =
  name :: string
  state :: string
  handle :: "handle_id option"
  transaction_open :: bool
  credentials :: OracleAdapterCredentials

text \<open>
  The world: the connection object the manager works on (the argument of \<^verbatim>\<open>open\<close> and
  \<^verbatim>\<open>cancel\<close>, the thread connection of \<^verbatim>\<open>add_query\<close>) and the trace of effects so far.
\<close>

record world =
  conn :: DBTConnection
  trace :: "event list"

text \<open>
  The driver and the host tool are outside this repository. Their answers are taken as
  parameters; each may depend on the whole trace so far. A driver call answers with a
  value or an exception; the host's \<^verbatim>\<open>begin\<close> and \<^verbatim>\<open>release\<close> may raise and may change the
  connection object; the clock gives the elapsed seconds already formatted.
\<close>

record env =
  drv_connect :: "event list \<Rightarrow> string \<Rightarrow> string \<Rightarrow> string \<Rightarrow> exn + handle_id"
  drv_cursor :: "event list \<Rightarrow> handle_id \<Rightarrow> exn + cursor_id"
  drv_execute :: "event list \<Rightarrow> cursor_id \<Rightarrow> string \<Rightarrow> bindings option \<Rightarrow> exn + unit"
  drv_commit :: "event list \<Rightarrow> handle_id \<Rightarrow> exn + unit"
  drv_close :: "event list \<Rightarrow> handle_id option \<Rightarrow> exn + unit"
  host_begin :: "event list \<Rightarrow> DBTConnection \<Rightarrow> (exn + unit) \<times> DBTConnection"
  host_release :: "event list \<Rightarrow> DBTConnection \<Rightarrow> (exn + unit) \<times> DBTConnection"
  clock_elapsed :: "event list \<Rightarrow> string"

text \<open>
  A piece of code that runs in a world: it returns a value or raises, and leaves a world
  behind in both cases. Statements in sequence are chained with \<open>bind_action\<close>, which
  stops at the first exception as Python does.
\<close>

type_synonym 'a action = "world \<Rightarrow> (exn + 'a) \<times> world"

definition succeed :: "'a \<Rightarrow> 'a action" where
  "succeed v w = (Inr v, w)"

definition raise_exn :: "exn \<Rightarrow> 'a action" where
  "raise_exn e w = (Inl e, w)"

definition bind_action :: "'a action \<Rightarrow> ('a \<Rightarrow> 'b action) \<Rightarrow> 'b action" where
  "bind_action m f w = (case m w of (Inl e, w') \<Rightarrow> (Inl e, w') | (Inr v, w') \<Rightarrow> f v w')"

definition do_if :: "bool \<Rightarrow> unit action \<Rightarrow> unit action" where
  "do_if c m = (if c then m else succeed ())"

definition emit :: "event \<Rightarrow> world \<Rightarrow> world" where
  "emit ev w = w\<lparr>trace := trace w @ [ev]\<rparr>"

definition logged :: "event \<Rightarrow> unit action" where
  "logged ev w = (Inr (), emit ev w)"

definition connect :: "env \<Rightarrow> string \<Rightarrow> string \<Rightarrow> string \<Rightarrow> handle_id action" where
  "connect E u p dsn w = (drv_connect E (trace w) u p dsn, emit (DriverConnect u p dsn) w)"

definition cursor :: "env \<Rightarrow> handle_id \<Rightarrow> cursor_id action" where
  "cursor E h w = (drv_cursor E (trace w) h, emit (DriverCursor h) w)"

definition execute :: "env \<Rightarrow> cursor_id \<Rightarrow> string \<Rightarrow> bindings option \<Rightarrow> unit action" where
  "execute E c sql b w = (drv_execute E (trace w) c sql b, emit (DriverExecute c sql b) w)"

definition commit :: "env \<Rightarrow> handle_id \<Rightarrow> unit action" where
  "commit E h w = (drv_commit E (trace w) h, emit (DriverCommit h) w)"

definition close :: "env \<Rightarrow> handle_id option \<Rightarrow> unit action" where
  "close E h w = (drv_close E (trace w) h, emit (DriverClose h) w)"

definition begin_transaction :: "env \<Rightarrow> unit action" where
  "begin_transaction E w =
     (case host_begin E (trace w) (conn w) of
        (r, c) \<Rightarrow> (r, (emit HostBegin w)\<lparr>conn := c\<rparr>))"

definition release :: "env \<Rightarrow> unit action" where
  "release E w =
     (case host_release E (trace w) (conn w) of
        (r, c) \<Rightarrow> (r, (emit HostRelease w)\<lparr>conn := c\<rparr>))"

definition sq :: string where "sq = [CHR 0x27]"
definition dq :: string where "dq = [CHR 0x22]"

subsection \<open>The connection manager\<close>

definition get_credentials :: "OracleAdapterCredentials \<Rightarrow> OracleAdapterCredentials" where
  "get_credentials c = c"

text \<open>
  \<^verbatim>\<open>open\<close>. Only \<^verbatim>\<open>cx_Oracle.DatabaseError\<close> is caught around the connect call; any other
  exception leaves the connection object as it was and propagates.
\<close>

definition attempt_message :: "OracleConnectionMethod \<Rightarrow> string \<Rightarrow> string" where
  "attempt_message method dsn =
     ''Attempting to connect using Oracle method: '' @ sq @ format_method method @ sq
       @ '' and dsn: '' @ sq @ dsn @ sq"

definition "open" :: "env \<Rightarrow> DBTConnection action" where
  "open E w =
     (if state (conn w) = ''open'' then
        (Inr (conn w), emit (LogDebug ''Connection is already open, skipping open.'') w)
      else
        (let creds = get_credentials (credentials (conn w));
             method = connection_method creds;
             dsn = get_dsn creds;
             w1 = emit (LogDebug (attempt_message method dsn)) w
         in case connect E (user creds) (password creds) dsn w1 of
              (Inr h, w2) \<Rightarrow>
                (let w3 = w2\<lparr>conn := (conn w2)\<lparr>handle := Some h, state := ''open''\<rparr>\<rparr>
                 in (Inr (conn w3), w3))
            | (Inl e, w2) \<Rightarrow>
                if isinstance_DatabaseError e then
                  (let w3 = emit (LogInfo (''Got an error when attempting to open an Oracle connection: ''
                              @ sq @ exn_msg e @ sq)) w2;
                       w4 = w3\<lparr>conn := (conn w3)\<lparr>handle := None, state := ''fail''\<rparr>\<rparr>
                   in (Inl (Exn DbtFailedToConnectException (exn_msg e) None), w4))
                else (Inl e, w2)))"

definition cancel :: "env \<Rightarrow> unit action" where
  "cancel E w =
     (let connection_name = name (conn w);
          oracle_connection = handle (conn w);
          w1 = emit (LogInfo (''Cancelling query '' @ sq @ connection_name @ sq @ '' '')) w
      in case close E oracle_connection w1 of
           (Inl e, w2) \<Rightarrow>
             if isinstance_Exception e then
               (Inl (Exn PyException (exn_msg e) None),
                emit (LogError ''Error closing connection for cancel request'') w2)
             else (Inl e, w2)
         | (Inr u, w2) \<Rightarrow>
             (Inr (), emit (LogInfo (''Canceled query '' @ sq @ connection_name @ sq)) w2))"

datatype DummyResponse = DummyResponse string

definition get_status :: "cursor_id \<Rightarrow> DummyResponse" where
  "get_status c = DummyResponse ''OK''"

definition get_response :: "cursor_id \<Rightarrow> DummyResponse" where
  "get_response c = DummyResponse ''OK''"

definition format_response :: "DummyResponse \<Rightarrow> string" where
  "format_response r = (case r of DummyResponse m \<Rightarrow> ''DummyResponse(_message='' @ sq @ m @ sq @ '')'')"

text \<open>
  \<^verbatim>\<open>exception_handler(sql)\<close> around a body. A body that returns is left alone. A
  \<^verbatim>\<open>DatabaseError\<close> is logged, release is attempted with only \<^verbatim>\<open>cx_Oracle.Error\<close> caught
  around it, and a \<^verbatim>\<open>DatabaseException\<close> is raised from the error. Any other \<^verbatim>\<open>Exception\<close>
  is followed by an unguarded release, then raised again as it is when it is a
  \<^verbatim>\<open>RuntimeException\<close> and wrapped otherwise. What is not an \<^verbatim>\<open>Exception\<close> passes through.
\<close>

definition exception_handler :: "env \<Rightarrow> string \<Rightarrow> 'a action \<Rightarrow> 'a action" where
  "exception_handler E sql body w =
     (case body w of
        (Inr v, w1) \<Rightarrow> (Inr v, w1)
      | (Inl e, w1) \<Rightarrow>
          if isinstance_DatabaseError e then
            (let w2 = emit (LogError (''Oracle error: '' @ exn_msg e)) w1
             in case release E w2 of
                  (Inr u, w3) \<Rightarrow>
                    (Inl (Exn DbtDatabaseException (sql @ strip (exn_msg e)) (Some e)), w3)
                | (Inl r, w3) \<Rightarrow>
                    if isinstance_cx_Error r then
                      (Inl (Exn DbtDatabaseException (sql @ strip (exn_msg e)) (Some e)),
                       emit (LogError ''Failed to release connection!'') w3)
                    else (Inl r, w3))
          else if isinstance_Exception e then
            (let w2 = emit (LogError ''Rolling back transaction.'') w1
             in case release E w2 of
                  (Inl r, w3) \<Rightarrow> (Inl r, w3)
                | (Inr u, w3) \<Rightarrow>
                    if isinstance_RuntimeException e then (Inl e, w3)
                    else (Inl (Exn DbtRuntimeException (exn_msg e) (Some e)), w3))
          else (Inl e, w1))"

text \<open>
  \<^verbatim>\<open>HookInfo.message\<close>: the event prints its \<^verbatim>\<open>msg\<close> followed by a full stop. A \<open>FireEvent\<close> in
  the trace carries the \<^verbatim>\<open>msg\<close> the event was built with.
\<close>

definition message :: "string \<Rightarrow> string" where
  "message msg = msg @ ''.''"

text \<open>The text that \<^verbatim>\<open>add_query\<close> logs for the statement (its local \<^verbatim>\<open>log_sql\<close>).\<close>

definition log_sql :: "bool \<Rightarrow> string \<Rightarrow> string" where
  "log_sql abridge_sql_log sql = (if abridge_sql_log then take 512 sql @ ''...'' else sql)"

text \<open>Reading \<^verbatim>\<open>connection.handle.cursor\<close>: on a handle that is \<^verbatim>\<open>None\<close> it raises \<^verbatim>\<open>AttributeError\<close>.\<close>

definition handle_of :: "DBTConnection \<Rightarrow> handle_id action" where
  "handle_of connection =
     (case handle connection of
        None \<Rightarrow> raise_exn (Exn PyAttributeError
          (sq @ ''NoneType'' @ sq @ '' object has no attribute '' @ sq @ ''cursor'' @ sq) None)
      | Some h \<Rightarrow> succeed h)"

text \<open>The second \<^verbatim>\<open>fire_event\<close> of \<^verbatim>\<open>add_query\<close>, with the status and the elapsed time.\<close>

definition fire_status :: "env \<Rightarrow> cursor_id \<Rightarrow> unit action" where
  "fire_status E c w =
     logged (FireEvent (''SQL status: '' @ format_response (get_status c) @ '' in ''
       @ clock_elapsed E (trace w) @ '' seconds'')) w"

text \<open>
  The block of \<^verbatim>\<open>add_query\<close> inside \<^verbatim>\<open>with self.exception_handler(sql)\<close>, statement by
  statement. The connection object is not written to in this block, so the handle that
  \<^verbatim>\<open>cursor()\<close> is called on is the one \<^verbatim>\<open>commit()\<close> is called on.
\<close>

definition add_query_body ::
    "env \<Rightarrow> string \<Rightarrow> bindings \<Rightarrow> bool \<Rightarrow> (DBTConnection \<times> cursor_id) action" where
  "add_query_body E sql b abridge_sql_log w =
     (let connection = conn w;
          creds = credentials connection;
          debug = truthy_bool (debug_log_commands creds)
      in bind_action
           (do_if debug (logged (FireEvent
              (''On '' @ name connection @ '': '' @ log_sql abridge_sql_log sql))))
        (\<lambda>_. bind_action (handle_of connection)
        (\<lambda>h. bind_action (cursor E h)
        (\<lambda>c. bind_action
           (do_if (truthy_str (cursor_precode creds)) (execute E c (the (cursor_precode creds)) None))
        (\<lambda>_. bind_action (execute E c sql (Some b))
        (\<lambda>_. bind_action (commit E h)
        (\<lambda>_. bind_action (do_if debug (fire_status E c))
        (\<lambda>_. succeed (connection, c)))))))) w)"

text \<open>\<^verbatim>\<open>add_query\<close>. The call of \<^verbatim>\<open>begin\<close> stands before the handler: what it raises propagates.\<close>

definition add_query ::
    "env \<Rightarrow> string \<Rightarrow> bool \<Rightarrow> bindings \<Rightarrow> bool \<Rightarrow> (DBTConnection \<times> cursor_id) action" where
  "add_query E sql auto_begin b abridge_sql_log w =
     bind_action
       (do_if (auto_begin \<and> transaction_open (conn w) = False) (begin_transaction E))
       (\<lambda>_ w1. bind_action
          (logged (LogDebug (''Using oracle connection '' @ dq @ name (conn w1) @ dq @ ''.'')))
          (\<lambda>_. exception_handler E sql (add_query_body E sql b abridge_sql_log)) w1) w"

text \<open>\<^verbatim>\<open>add_begin_query\<close> returns the handle's cursor method itself, not a cursor.\<close>

definition add_begin_query :: "(DBTConnection \<times> handle_id) action" where
  "add_begin_query w = bind_action (handle_of (conn w)) (\<lambda>h. succeed (conn w, h)) w"

subsection \<open>Reading a trace\<close>

text \<open>The events a run added to the trace, and the statements executed with bindings among them.\<close>

definition new_events :: "world \<Rightarrow> world \<Rightarrow> event list" where
  "new_events w w' = drop (length (trace w)) (trace w')"

fun executed_statements :: "event list \<Rightarrow> (string \<times> bindings) list" where
  "executed_statements [] = []"
| "executed_statements (DriverExecute c s (Some b) # evs) = (s, b) # executed_statements evs"
| "executed_statements (ev # evs) = executed_statements evs"

fun is_connect :: "event \<Rightarrow> bool" where
  "is_connect (DriverConnect u p d) = True"
| "is_connect ev = False"

text \<open>
  What \<^verbatim>\<open>add_query\<close> may add to the trace once \<^verbatim>\<open>begin\<close> is past: statements run with
  bindings are the given statement with the given bindings, \<^verbatim>\<open>begin\<close> is not called again,
  and a fired event is the given statement line or a status line.
\<close>

definition query_events :: "string \<Rightarrow> string \<Rightarrow> bindings \<Rightarrow> event list \<Rightarrow> bool" where
  "query_events line sql b d \<longleftrightarrow>
     set (executed_statements d) \<subseteq> {(sql, b)} \<and> HostBegin \<notin> set d
     \<and> (\<forall>m. FireEvent m \<in> set d \<longrightarrow> m = line \<or> take 12 m = ''SQL status: '')"

definition grows_by :: "(event list \<Rightarrow> bool) \<Rightarrow> world \<Rightarrow> world \<Rightarrow> bool" where
  "grows_by P w w' \<longleftrightarrow> (\<exists>d. trace w' = trace w @ d \<and> P d)"

text \<open>The world in which \<^verbatim>\<open>add_query\<close> goes on after its optional call of \<^verbatim>\<open>begin\<close>.\<close>

definition after_begin :: "env \<Rightarrow> bool \<Rightarrow> world \<Rightarrow> world" where
  "after_begin E auto_begin w =
     snd (do_if (auto_begin \<and> transaction_open (conn w) = False) (begin_transaction E) w)"

subsection \<open>Assumptions on the environment\<close>

text \<open>No call that \<^verbatim>\<open>add_query\<close> makes raises.\<close>

definition never_raises :: "env \<Rightarrow> bool" where
  "never_raises E \<longleftrightarrow>
     (\<forall>t h. \<exists>c. drv_cursor E t h = Inr c)
   \<and> (\<forall>t c s b. drv_execute E t c s b = Inr ())
   \<and> (\<forall>t h. drv_commit E t h = Inr ())
   \<and> (\<forall>t c. fst (host_begin E t c) = Inr ())"

definition raises_FailedToConnect :: "exn + 'a \<Rightarrow> bool" where
  "raises_FailedToConnect r =
     (case r of Inl e \<Rightarrow> class_of e = DbtFailedToConnectException | Inr v \<Rightarrow> False)"

text \<open>The driver and the host do not raise \<^verbatim>\<open>FailedToConnectException\<close> themselves.\<close>

definition env_without_FailedToConnect :: "env \<Rightarrow> bool" where
  "env_without_FailedToConnect E \<longleftrightarrow>
     (\<forall>t u p d. \<not> raises_FailedToConnect (drv_connect E t u p d))
   \<and> (\<forall>t h. \<not> raises_FailedToConnect (drv_cursor E t h))
   \<and> (\<forall>t c s b. \<not> raises_FailedToConnect (drv_execute E t c s b))
   \<and> (\<forall>t h. \<not> raises_FailedToConnect (drv_commit E t h))
   \<and> (\<forall>t c. \<not> raises_FailedToConnect (fst (host_begin E t c)))
   \<and> (\<forall>t c. \<not> raises_FailedToConnect (fst (host_release E t c)))"

text \<open>The host's \<^verbatim>\<open>begin\<close> and \<^verbatim>\<open>release\<close> do not set the state to fail.\<close>

definition host_keeps_fail_state :: "env \<Rightarrow> bool" where
  "host_keeps_fail_state E \<longleftrightarrow>
     (\<forall>t c. state c \<noteq> ''fail'' \<longrightarrow> state (snd (host_begin E t c)) \<noteq> ''fail'')
   \<and> (\<forall>t c. state c \<noteq> ''fail'' \<longrightarrow> state (snd (host_release E t c)) \<noteq> ''fail'')"

subsection \<open>Concrete inputs\<close>

definition example_credentials :: OracleAdapterCredentials where
  "example_credentials =
     \<lparr>database = ''ORCL'', schema = ''ANALYTICS'', user = ''scott'', password = ''tiger'',
      port = Some 1521, host = Some ''db.example.com'', service = None,
      connection_string = None, debug_log_commands = Some True,
      cursor_precode = Some ''ALTER SESSION SET CURRENT_SCHEMA = ANALYTICS''\<rparr>"

definition example_connection :: DBTConnection where
  "example_connection =
     \<lparr>name = ''master'', state = ''init'', handle = None, transaction_open = False,
      credentials = example_credentials\<rparr>"

definition example_world :: world where
  "example_world = \<lparr>conn = example_connection, trace = []\<rparr>"

definition open_world :: world where
  "open_world = \<lparr>conn = example_connection\<lparr>state := ''open'', handle := Some 7\<rparr>, trace = []\<rparr>"

text \<open>An environment in which every driver and host call succeeds.\<close>

definition quiet_env :: env where
  "quiet_env =
     \<lparr>drv_connect = (\<lambda>t u p d. Inr 7),
      drv_cursor = (\<lambda>t h. Inr 3),
      drv_execute = (\<lambda>t c s b. Inr ()),
      drv_commit = (\<lambda>t h. Inr ()),
      drv_close = (\<lambda>t h. Inr ()),
      host_begin = (\<lambda>t c. (Inr (), c\<lparr>transaction_open := True\<rparr>)),
      host_release = (\<lambda>t c. (Inr (), c\<lparr>state := ''closed'', handle := None, transaction_open := False\<rparr>)),
      clock_elapsed = (\<lambda>t. ''0.01'')\<rparr>"

text \<open>The driver refuses the connection.\<close>

definition refusing_env :: env where
  "refusing_env = quiet_env\<lparr>drv_connect :=
     (\<lambda>t u p d. Inl (Exn CxDatabaseError
        ''ORA-12154: TNS:could not resolve the connect identifier specified'' None))\<rparr>"

text \<open>The driver fails to connect with an error that is not a \<^verbatim>\<open>DatabaseError\<close>.\<close>

definition unavailable_env :: env where
  "unavailable_env = quiet_env\<lparr>drv_connect :=
     (\<lambda>t u p d. Inl (Exn CxInterfaceError ''Unable to acquire Oracle environment handle'' None))\<rparr>"

text \<open>The host's release raises the given exception.\<close>

definition release_raising :: "exn \<Rightarrow> env" where
  "release_raising x = quiet_env\<lparr>host_release := (\<lambda>t c. (Inl x, c))\<rparr>"

text \<open>A driver error whose message ends with a line feed.\<close>

definition missing_table :: exn where
  "missing_table =
     Exn CxDatabaseError (''ORA-00942: table or view does not exist'' @ [CHR 0x0A]) None"

text \<open>Statements with bindings fail in the driver, and release fails in the host.\<close>

definition stuck_env :: env where
  "stuck_env = (release_raising (Exn PyException ''release failed'' None))\<lparr>drv_execute :=
     (\<lambda>t c s b. if b = None then Inr () else Inl missing_table)\<rparr>"

section \<open>Properties\<close>

subsection \<open>Credentials\<close>

lemma truthy_str_iff: "truthy_str x \<longleftrightarrow> (\<exists>s. x = Some s \<and> s \<noteq> [])"
  by (cases x) (simp_all add: truthy_str_def)

text \<open>
  C1. \<open>connection_method\<close> is a total function of the two fields \<open>connection_string\<close> and
  \<open>host\<close>: it is \<open>CONNECTION_STRING\<close> when the connection string is set and not empty,
  otherwise \<open>HOST\<close> when the host is set and not empty, otherwise \<open>TNS\<close>; two credentials that
  agree on these two fields get the same method, whatever their other fields are.
\<close>

theorem connection_method_priority:
  "connection_method c =
     (if connection_string c \<noteq> None \<and> connection_string c \<noteq> Some [] then CONNECTION_STRING
      else if host c \<noteq> None \<and> host c \<noteq> Some [] then HOST
      else TNS)
   \<and> (connection_string c' = connection_string c \<and> host c' = host c
        \<longrightarrow> connection_method c' = connection_method c)"
  by (auto simp: connection_method_def truthy_str_def split: option.splits)

theorem connection_method_priority_witness:
  "connection_method example_credentials = HOST
   \<and> connection_method (example_credentials\<lparr>user := ''other'', port := None, database := ''X''\<rparr>)
       = connection_method example_credentials"
  using connection_method_priority
    [of example_credentials "example_credentials\<lparr>user := ''other'', port := None, database := ''X''\<rparr>"]
  by (simp add: example_credentials_def)

subsection \<open>Printing the port\<close>

lemma of_char_digit_char: "d < 10 \<Longrightarrow> (of_char (digit_char d) :: nat) = 48 + d"
  by (simp add: digit_char_def)

lemma digit_char_zero_iff: "d < 10 \<Longrightarrow> digit_char d = CHR ''0'' \<longleftrightarrow> d = 0"
proof
  assume d: "d < 10" and "digit_char d = CHR ''0''"
  then have "(of_char (digit_char d) :: nat) = of_char (CHR ''0'')" by simp
  with d show "d = 0" by (simp add: of_char_digit_char)
next
  assume "d = 0"
  moreover have "digit_char 0 = CHR ''0''" by code_simp
  ultimately show "digit_char d = CHR ''0''" by simp
qed

lemma is_digit_digit_char: "d < 10 \<Longrightarrow> is_digit (digit_char d)"
  by (simp add: is_digit_def of_char_digit_char)

lemma str_nat_not_Nil: "str_nat n \<noteq> []"
  by (subst str_nat.simps) simp

lemma str_nat_digits: "list_all is_digit (str_nat n)"
proof (induction n rule: str_nat.induct)
  case (1 n)
  show ?case
  proof (cases "n < 10")
    case True
    then show ?thesis
      by (subst str_nat.simps) (simp add: is_digit_digit_char)
  next
    case False
    have "n mod 10 < 10" by simp
    with False 1 show ?thesis
      by (subst str_nat.simps) (simp add: is_digit_digit_char)
  qed
qed

lemma decimal_value_snoc: "decimal_value (s @ [c]) = 10 * decimal_value s + ((of_char c :: nat) - 48)"
  by (simp add: decimal_value_def)

lemma str_nat_value: "decimal_value (str_nat n) = n"
proof (induction n rule: str_nat.induct)
  case (1 n)
  show ?case
  proof (cases "n < 10")
    case True
    then show ?thesis
      by (subst str_nat.simps) (simp add: decimal_value_def of_char_digit_char)
  next
    case False
    have "n mod 10 < 10" by simp
    then have "(of_char (digit_char (n mod 10)) :: nat) - 48 = n mod 10"
      by (simp add: of_char_digit_char)
    with False 1 show ?thesis
      by (subst str_nat.simps) (simp add: decimal_value_snoc)
  qed
qed

lemma str_nat_leading: "hd (str_nat n) = CHR ''0'' \<Longrightarrow> n = 0"
proof (induction n rule: str_nat.induct)
  case (1 n)
  show ?case
  proof (cases "n < 10")
    case True
    with 1(2) show ?thesis
      by (subst (asm) str_nat.simps) (simp add: digit_char_zero_iff)
  next
    case False
    with 1(2) have "hd (str_nat (n div 10)) = CHR ''0''"
      by (subst (asm) str_nat.simps) (simp add: str_nat_not_Nil)
    with 1(1) False have "n div 10 = 0" by simp
    with False show ?thesis by simp
  qed
qed

lemma str_nat_zero: "str_nat 0 = ''0''"
  by code_simp

lemma str_nat_decimal: "is_decimal_of (str_nat n) n"
  using str_nat_leading [of n]
  by (auto simp: is_decimal_of_def str_nat_not_Nil str_nat_digits str_nat_value str_nat_zero)

lemma format_opt_int_prints: "prints_as x (format_opt_int x)"
  by (cases x) (simp_all add: prints_as_def format_opt_int_def str_int_def str_nat_decimal)


lemma digit_char_of_char: "is_digit c \<Longrightarrow> digit_char ((of_char c :: nat) - 48) = c"
proof -
  assume "is_digit c"
  then have "48 + ((of_char c :: nat) - 48) = of_char c"
    by (simp add: is_digit_def)
  then show ?thesis
    by (simp add: digit_char_def)
qed

lemma decimal_is_str_nat: "is_decimal_of s n \<Longrightarrow> s = str_nat n"
proof (induction s arbitrary: n rule: rev_induct)
  case Nil
  then show ?case by (simp add: is_decimal_of_def)
next
  case (snoc c t)
  let ?d = "(of_char c :: nat) - 48"
  from snoc.prems have dig: "is_digit c" "list_all is_digit t"
    and val: "10 * decimal_value t + ?d = n"
    and lead: "t @ [c] = ''0'' \<or> hd (t @ [c]) \<noteq> CHR ''0''"
    by (simp_all add: is_decimal_of_def decimal_value_snoc)
  have d: "?d < 10"
    using dig(1) by (auto simp: is_digit_def)
  show ?case
  proof (cases "t = []")
    case True
    with val d have "n < 10" "?d = n" by (simp_all add: decimal_value_def)
    with True digit_char_of_char [OF dig(1)] show ?thesis
      by (subst str_nat.simps) simp
  next
    case False
    with lead have "hd t \<noteq> CHR ''0''" by auto
    with False dig(2) have "is_decimal_of t (decimal_value t)"
      by (simp add: is_decimal_of_def)
    then have t: "t = str_nat (decimal_value t)"
      by (rule snoc.IH)
    have "decimal_value t \<noteq> 0"
    proof
      assume "decimal_value t = 0"
      with t have "t = ''0''" by (simp add: str_nat_zero)
      with \<open>hd t \<noteq> CHR ''0''\<close> show False by simp
    qed
    with val d have n: "\<not> n < 10" "n div 10 = decimal_value t" "n mod 10 = ?d"
      by auto
    show ?thesis
      using t n dig(1) by (subst str_nat.simps) (simp add: digit_char_of_char)
  qed
qed

lemma prints_as_iff: "prints_as x s \<longleftrightarrow> s = format_opt_int x"
proof
  assume "s = format_opt_int x"
  then show "prints_as x s" by (simp add: format_opt_int_prints)
next
  assume p: "prints_as x s"
  show "s = format_opt_int x"
  proof (cases x)
    case None
    with p show ?thesis by (simp add: prints_as_def format_opt_int_def)
  next
    case (Some i)
    show ?thesis
    proof (cases "i < 0")
      case True
      with p Some have "s \<noteq> []" "hd s = CHR ''-''" "tl s = str_nat (nat (- i))"
        by (auto simp: prints_as_def dest: decimal_is_str_nat)
      then have "s = CHR ''-'' # str_nat (nat (- i))"
        by (cases s) simp_all
      with True Some show ?thesis by (simp add: format_opt_int_def str_int_def)
    next
      case False
      with p Some have "s = str_nat (nat i)"
        by (auto simp: prints_as_def dest: decimal_is_str_nat)
      with False Some show ?thesis by (simp add: format_opt_int_def str_int_def)
    qed
  qed
qed

subsection \<open>The address\<close>

text \<open>
  C2. \<open>get_dsn\<close> returns the database field when the method is \<open>TNS\<close>, the connection string
  when it is \<open>CONNECTION_STRING\<close>, and host, colon, port, slash, service when it is \<open>HOST\<close>,
  where the service is the service field when that is set to a non-empty string and the
  database field otherwise. The port part is the port as Python prints it, and no other
  string: the decimal numeral of the configured port (the word None when the port is
  unset).
\<close>

theorem get_dsn_by_method:
  "get_dsn c =
     (case connection_method c of
        TNS \<Rightarrow> database c
      | CONNECTION_STRING \<Rightarrow> the (connection_string c)
      | HOST \<Rightarrow> the (host c) @ '':'' @ format_opt_int (port c) @ ''/''
          @ (if service c = None \<or> service c = Some [] then database c else the (service c)))
   \<and> (\<forall>p. prints_as (port c) p \<longleftrightarrow> p = format_opt_int (port c))"
proof -
  have "get_dsn c =
     (case connection_method c of
        TNS \<Rightarrow> database c
      | CONNECTION_STRING \<Rightarrow> the (connection_string c)
      | HOST \<Rightarrow> the (host c) @ '':'' @ format_opt_int (port c) @ ''/''
          @ (if service c = None \<or> service c = Some [] then database c else the (service c)))"
    by (auto simp: get_dsn_def connection_method_def truthy_str_def format_opt_str_def Let_def
        split: option.splits)
  then show ?thesis
    by (simp add: prints_as_iff)
qed

lemma str_nat_7: "str_nat 7 = ''7''"
  by code_simp

lemma example_ports:
  "format_opt_int (Some 1521) = ''1521''" "format_opt_int (Some 1522) = ''1522''"
  "format_opt_int (Some (- 7)) = ''-7''" "format_opt_int None = ''None''"
  by (code_simp, code_simp) (simp_all add: format_opt_int_def str_int_def str_nat_7)

theorem get_dsn_by_method_witness:
  "get_dsn example_credentials = ''db.example.com:1521/ORCL''
   \<and> get_dsn (example_credentials\<lparr>port := Some 1522\<rparr>) = ''db.example.com:1522/ORCL''
   \<and> get_dsn (example_credentials\<lparr>port := Some 1522, service := Some ''PDB1''\<rparr>)
       = ''db.example.com:1522/PDB1''
   \<and> get_dsn (example_credentials\<lparr>port := Some (- 7)\<rparr>) = ''db.example.com:-7/ORCL''
   \<and> get_dsn (example_credentials\<lparr>port := None\<rparr>) = ''db.example.com:None/ORCL''
   \<and> get_dsn (example_credentials\<lparr>host := None, connection_string := Some ''orcl_high''\<rparr>) = ''orcl_high''
   \<and> get_dsn (example_credentials\<lparr>host := None\<rparr>) = ''ORCL''
   \<and> prints_as (Some 1522) ''1522'' \<and> \<not> prints_as (Some 1522) ''1521''
   \<and> \<not> prints_as (Some 1522) ''01522''"
  using get_dsn_by_method [of example_credentials]
    get_dsn_by_method [of "example_credentials\<lparr>port := Some 1522\<rparr>"]
    get_dsn_by_method [of "example_credentials\<lparr>port := Some 1522, service := Some ''PDB1''\<rparr>"]
    get_dsn_by_method [of "example_credentials\<lparr>port := Some (- 7)\<rparr>"]
    get_dsn_by_method [of "example_credentials\<lparr>port := None\<rparr>"]
    get_dsn_by_method [of "example_credentials\<lparr>host := None, connection_string := Some ''orcl_high''\<rparr>"]
    get_dsn_by_method [of "example_credentials\<lparr>host := None\<rparr>"]
  by (simp add: example_credentials_def connection_method_def truthy_str_def example_ports)

text \<open>
  C8. Changing only the password changes neither the method nor the address: descriptor
  resolution does not read the password.
\<close>

theorem password_not_consulted:
  "connection_method (c\<lparr>password := p\<rparr>) = connection_method c
   \<and> get_dsn (c\<lparr>password := p\<rparr>) = get_dsn c"
  by (simp add: get_dsn_def connection_method_def)

theorem password_not_consulted_witness:
  "connection_method (example_credentials\<lparr>password := ''hunter2''\<rparr>) = HOST
   \<and> get_dsn (example_credentials\<lparr>password := ''hunter2''\<rparr>) = get_dsn example_credentials"
  using password_not_consulted [where c = example_credentials and p = "''hunter2''"]
  by (simp add: example_credentials_def connection_method_def truthy_str_def)

subsection \<open>Opening a connection\<close>

text \<open>
  C5. On a connection whose state is already open, \<open>open\<close> returns the connection as it
  is, leaves the connection object unchanged and adds one debug line to the trace and
  nothing else, so the driver's connect is not called; a second call behaves the same.
\<close>

theorem open_idempotent:
  "state (conn w) = ''open'' \<Longrightarrow>
     fst (open E w) = Inr (conn w)
   \<and> conn (snd (open E w)) = conn w
   \<and> new_events w (snd (open E w)) = [LogDebug ''Connection is already open, skipping open.'']
   \<and> filter is_connect (trace (snd (open E (snd (open E w))))) = filter is_connect (trace w)
   \<and> fst (open E (snd (open E w))) = fst (open E w)
   \<and> conn (snd (open E (snd (open E w)))) = conn (snd (open E w))"
  by (simp add: open_def emit_def new_events_def)

theorem open_idempotent_witness:
  "state (conn open_world) = ''open''
   \<and> fst (open quiet_env open_world) = Inr (conn open_world)
   \<and> filter is_connect (trace (snd (open quiet_env (snd (open quiet_env open_world))))) = []
   \<and> handle (conn (snd (open quiet_env (snd (open quiet_env open_world))))) = Some 7"
proof -
  have st: "state (conn open_world) = ''open''"
    by (simp add: open_world_def)
  show ?thesis
    using st open_idempotent [OF st, of quiet_env]
    by (simp add: open_world_def)
qed

subsection \<open>Sequencing\<close>

lemma bind_unfold:
  "bind_action m f w = (case fst (m w) of Inl e \<Rightarrow> (Inl e, snd (m w)) | Inr v \<Rightarrow> f v (snd (m w)))"
  by (cases "m w") (simp add: bind_action_def split: sum.splits)

lemma bind_Inr:
  "bind_action m f w = (Inr v, w') \<longleftrightarrow> (\<exists>u. fst (m w) = Inr u \<and> f u (snd (m w)) = (Inr v, w'))"
  by (simp add: bind_unfold split: sum.splits)

lemma bind_rel:
  assumes "\<And>a b c. R a b \<Longrightarrow> R b c \<Longrightarrow> R a c"
    and "\<And>w. R w (snd (m w))" and "\<And>v w. R w (snd (f v w))"
  shows "R w (snd (bind_action m f w))"
  using assms by (simp add: bind_unfold split: sum.splits) blast

lemma bind_raises:
  assumes "\<And>w e. fst (m w) = Inl e \<Longrightarrow> Q e" and "\<And>v w e. fst (f v w) = Inl e \<Longrightarrow> Q e"
    and "fst (bind_action m f w) = Inl e"
  shows "Q e"
  using assms by (auto simp: bind_unfold split: sum.splits)

lemma bind_returns:
  assumes "\<And>w. \<exists>v. fst (m w) = Inr v" and "\<And>v w. \<exists>x. fst (f v w) = Inr x"
  shows "\<exists>x. fst (bind_action m f w) = Inr x"
  using assms by (auto simp: bind_unfold split: sum.splits) (metis sum.distinct(1))

lemma conn_emit [simp]: "conn (emit ev w) = conn w"
  by (simp add: emit_def)

lemma trace_emit [simp]: "trace (emit ev w) = trace w @ [ev]"
  by (simp add: emit_def)

lemma succeed_sel [simp]: "fst (succeed v w) = Inr v" "snd (succeed v w) = w"
  by (simp_all add: succeed_def)

lemma succeed_eq [simp]: "succeed v w = (r, w') \<longleftrightarrow> r = Inr v \<and> w' = w"
  by (auto simp: succeed_def)

lemma raise_sel [simp]: "fst (raise_exn e w) = Inl e" "snd (raise_exn e w) = w"
  by (simp_all add: raise_exn_def)

lemma logged_sel [simp]: "fst (logged ev w) = Inr ()" "snd (logged ev w) = emit ev w"
  by (simp_all add: logged_def)

lemma cursor_sel [simp]:
  "fst (cursor E h w) = drv_cursor E (trace w) h" "snd (cursor E h w) = emit (DriverCursor h) w"
  by (simp_all add: cursor_def)

lemma execute_sel [simp]:
  "fst (execute E c s b w) = drv_execute E (trace w) c s b"
  "snd (execute E c s b w) = emit (DriverExecute c s b) w"
  by (simp_all add: execute_def)

lemma commit_sel [simp]:
  "fst (commit E h w) = drv_commit E (trace w) h" "snd (commit E h w) = emit (DriverCommit h) w"
  by (simp_all add: commit_def)

lemma fire_status_sel [simp]:
  "fst (fire_status E c w) = Inr ()"
  "snd (fire_status E c w) = emit (FireEvent (''SQL status: '' @ format_response (get_status c)
      @ '' in '' @ clock_elapsed E (trace w) @ '' seconds'')) w"
  by (simp_all add: fire_status_def)

lemma do_if_sel:
  "fst (do_if c m w) = (if c then fst (m w) else Inr ())"
  "snd (do_if c m w) = (if c then snd (m w) else w)"
  by (simp_all add: do_if_def)

lemma handle_of_sel [simp]: "snd (handle_of c w) = w"
  by (simp add: handle_of_def split: option.splits)

lemma handle_of_Inr [simp]: "fst (handle_of c w) = Inr h \<longleftrightarrow> handle c = Some h"
  by (simp add: handle_of_def split: option.splits)

lemma release_sel:
  "fst (release E w) = fst (host_release E (trace w) (conn w))"
  "conn (snd (release E w)) = snd (host_release E (trace w) (conn w))"
  "trace (snd (release E w)) = trace w @ [HostRelease]"
  by (simp_all add: release_def split_beta)

lemma begin_sel:
  "fst (begin_transaction E w) = fst (host_begin E (trace w) (conn w))"
  "conn (snd (begin_transaction E w)) = snd (host_begin E (trace w) (conn w))"
  "trace (snd (begin_transaction E w)) = trace w @ [HostBegin]"
  by (simp_all add: begin_transaction_def split_beta)

lemma after_begin_sel:
  "trace (after_begin E ab w) =
     trace w @ (if ab \<and> \<not> transaction_open (conn w) then [HostBegin] else [])"
  "conn (after_begin E ab w) =
     (if ab \<and> \<not> transaction_open (conn w) then snd (host_begin E (trace w) (conn w)) else conn w)"
  by (simp_all add: after_begin_def do_if_sel begin_sel)

subsection \<open>What a run adds to the trace\<close>

lemma executed_statements_append [simp]:
  "executed_statements (xs @ ys) = executed_statements xs @ executed_statements ys"
  by (induction xs rule: executed_statements.induct) simp_all

lemma query_events_Nil [simp]: "query_events line sql b []"
  by (simp add: query_events_def)

lemma query_events_append [simp]:
  "query_events line sql b (d1 @ d2) \<longleftrightarrow> query_events line sql b d1 \<and> query_events line sql b d2"
  by (auto simp: query_events_def)

lemma query_events_single [simp]:
  "query_events line sql b [DriverExecute c s bo] \<longleftrightarrow> (bo = None \<or> bo = Some b \<and> s = sql)"
  "query_events line sql b [FireEvent m] \<longleftrightarrow> (m = line \<or> take 12 m = ''SQL status: '')"
  "query_events line sql b [LogDebug m]" "query_events line sql b [LogError m]"
  "query_events line sql b [DriverCursor h]" "query_events line sql b [DriverCommit h]"
  "query_events line sql b [HostRelease]"
  by (cases bo; auto simp: query_events_def)+

lemma grows_refl: "P [] \<Longrightarrow> grows_by P w w"
  by (simp add: grows_by_def)

lemma grows_emit: "P [ev] \<Longrightarrow> grows_by P w (emit ev w)"
  by (simp add: grows_by_def)

lemma grows_trans:
  assumes "grows_by (query_events line sql b) w0 w1" and "grows_by (query_events line sql b) w1 w2"
  shows "grows_by (query_events line sql b) w0 w2"
  using assms by (auto simp: grows_by_def)

lemma bind_grows:
  assumes "\<And>w. grows_by (query_events line sql b) w (snd (m w))"
    and "\<And>v w. grows_by (query_events line sql b) w (snd (f v w))"
  shows "grows_by (query_events line sql b) w (snd (bind_action m f w))"
  by (rule bind_rel [where R = "grows_by (query_events line sql b)"])
    (use assms in \<open>auto intro: grows_trans\<close>)

lemma body_conn: "conn (snd (add_query_body E sql b al w)) = conn w"
  unfolding add_query_body_def Let_def
  by (intro bind_rel [where R = "\<lambda>a b. conn b = conn a"]) (simp_all add: do_if_sel)

lemma body_grows:
  "grows_by (query_events (''On '' @ name (conn w) @ '': '' @ log_sql al sql) sql b) w
     (snd (add_query_body E sql b al w))"
  unfolding add_query_body_def Let_def
  by (intro bind_grows) (simp_all add: do_if_sel grows_emit grows_refl get_status_def format_response_def)

subsection \<open>The exception handler\<close>

lemma handler_Inr:
  "exception_handler E sql body w = (Inr v, w') \<longleftrightarrow> body w = (Inr v, w')"
  by (cases "body w") (auto simp: exception_handler_def Let_def split: sum.splits prod.splits)

lemma handler_returns:
  "fst (body w) = Inr x \<Longrightarrow> fst (exception_handler E sql body w) = Inr x"
  by (cases "body w") (simp add: exception_handler_def)

lemma handler_Inl:
  assumes "body w = (Inl e, w1)"
  shows "exception_handler E sql body w =
    (if isinstance_DatabaseError e then
       (case fst (release E (emit (LogError (''Oracle error: '' @ exn_msg e)) w1)) of
          Inr u \<Rightarrow> (Inl (Exn DbtDatabaseException (sql @ strip (exn_msg e)) (Some e)),
                    snd (release E (emit (LogError (''Oracle error: '' @ exn_msg e)) w1)))
        | Inl r \<Rightarrow>
            if isinstance_cx_Error r then
              (Inl (Exn DbtDatabaseException (sql @ strip (exn_msg e)) (Some e)),
               emit (LogError ''Failed to release connection!'')
                 (snd (release E (emit (LogError (''Oracle error: '' @ exn_msg e)) w1))))
            else (Inl r, snd (release E (emit (LogError (''Oracle error: '' @ exn_msg e)) w1))))
     else if isinstance_Exception e then
       (case fst (release E (emit (LogError ''Rolling back transaction.'') w1)) of
          Inl r \<Rightarrow> (Inl r, snd (release E (emit (LogError ''Rolling back transaction.'') w1)))
        | Inr u \<Rightarrow>
            (if isinstance_RuntimeException e then Inl e
             else Inl (Exn DbtRuntimeException (exn_msg e) (Some e)),
             snd (release E (emit (LogError ''Rolling back transaction.'') w1))))
     else (Inl e, w1))"
  using assms
  by (cases "release E (emit (LogError (''Oracle error: '' @ exn_msg e)) w1)";
      cases "release E (emit (LogError ''Rolling back transaction.'') w1)")
    (simp add: exception_handler_def Let_def split: sum.splits)

lemma handler_grows:
  assumes "grows_by (query_events line s b) w0 (snd (body w))"
  shows "grows_by (query_events line s b) w0 (snd (exception_handler E sql body w))"
proof (cases "body w")
  case (Pair r w1)
  have rel: "grows_by (query_events line s b) w0 (snd (release E (emit (LogError m) w1)))" for m
    using assms Pair by (auto simp: grows_by_def release_sel query_events_def)
  show ?thesis
  proof (cases r)
    case (Inr v)
    with Pair assms show ?thesis by (simp add: exception_handler_def)
  next
    case (Inl e)
    have fin: "grows_by (query_events line s b) w0 (emit (LogError m') (snd (release E (emit (LogError m) w1))))"
      for m m'
      using rel [of m] by (auto simp: grows_by_def)
    show ?thesis
      using Pair Inl assms rel fin by (simp add: handler_Inl split: sum.splits)
  qed
qed

lemma not_raises_iff:
  "\<not> raises_FailedToConnect r \<longleftrightarrow> (\<forall>e. r = Inl e \<longrightarrow> class_of e \<noteq> DbtFailedToConnectException)"
  by (cases r) (simp_all add: raises_FailedToConnect_def)

lemma handler_no_FTC:
  assumes "env_without_FailedToConnect E" and "\<not> raises_FailedToConnect (fst (body w))"
  shows "\<not> raises_FailedToConnect (fst (exception_handler E sql body w))"
proof (cases "body w")
  case (Pair r w1)
  have rel: "\<not> raises_FailedToConnect (fst (release E x))" for x
    using assms(1) by (simp add: release_sel env_without_FailedToConnect_def)
  show ?thesis
  proof (cases r)
    case (Inr v)
    with Pair show ?thesis by (simp add: exception_handler_def raises_FailedToConnect_def)
  next
    case (Inl e)
    have e: "class_of e \<noteq> DbtFailedToConnectException"
      using assms(2) Pair Inl by (simp add: raises_FailedToConnect_def)
    have r1: "class_of x \<noteq> DbtFailedToConnectException"
      if "fst (release E y) = Inl x" for x y
      using rel [of y] that by (simp add: raises_FailedToConnect_def)
    show ?thesis
      using Pair Inl e
      by (auto simp: handler_Inl raises_FailedToConnect_def dest: r1 split: sum.splits)
  qed
qed

lemma handler_state:
  assumes "host_keeps_fail_state E" and "state (conn (snd (body w))) \<noteq> ''fail''"
  shows "state (conn (snd (exception_handler E sql body w))) \<noteq> ''fail''"
proof (cases "body w")
  case (Pair r w1)
  have rel: "state (conn (snd (release E (emit ev w1)))) \<noteq> ''fail''" for ev
    using assms Pair by (simp add: release_sel host_keeps_fail_state_def)
  show ?thesis
  proof (cases r)
    case (Inr v)
    with Pair assms(2) show ?thesis by (simp add: exception_handler_def)
  next
    case (Inl e)
    show ?thesis
      using Pair Inl assms(2) rel by (simp add: handler_Inl split: sum.splits)
  qed
qed

subsection \<open>Running a statement\<close>

lemma add_query_unfold:
  "add_query E sql ab b al w =
     (case fst (do_if (ab \<and> \<not> transaction_open (conn w)) (begin_transaction E) w) of
        Inl e \<Rightarrow> (Inl e, after_begin E ab w)
      | Inr u \<Rightarrow>
          exception_handler E sql (add_query_body E sql b al)
            (emit (LogDebug (''Using oracle connection '' @ dq @ name (conn (after_begin E ab w))
                     @ dq @ ''.'')) (after_begin E ab w)))"
  by (simp add: add_query_def after_begin_def bind_unfold split: sum.splits)

lemma add_query_grows:
  "grows_by (query_events (''On '' @ name (conn (after_begin E ab w)) @ '': '' @ log_sql al sql) sql b)
     (after_begin E ab w) (snd (add_query E sql ab b al w))"
proof (cases "fst (do_if (ab \<and> \<not> transaction_open (conn w)) (begin_transaction E) w)")
  case (Inl e)
  then show ?thesis by (simp add: add_query_unfold grows_refl)
next
  case (Inr u)
  let ?w1 = "after_begin E ab w"
  let ?w2 = "emit (LogDebug (''Using oracle connection '' @ dq @ name (conn ?w1) @ dq @ ''.'')) ?w1"
  let ?P = "query_events (''On '' @ name (conn ?w1) @ '': '' @ log_sql al sql) sql b"
  have 1: "grows_by ?P ?w1 ?w2"
    by (simp add: grows_emit)
  have 2: "grows_by ?P ?w2 (snd (add_query_body E sql b al ?w2))"
    using body_grows [of ?w2 al sql b E] by simp
  have "grows_by ?P ?w1 (snd (add_query_body E sql b al ?w2))"
    by (rule grows_trans [OF 1 2])
  then have "grows_by ?P ?w1 (snd (exception_handler E sql (add_query_body E sql b al) ?w2))"
    by (rule handler_grows)
  with Inr show ?thesis by (simp add: add_query_unfold)
qed

lemma body_success:
  assumes "add_query_body E sql b al w = (Inr (c', cur), w')"
  shows "c' = conn w \<and> conn w' = conn w
     \<and> (\<exists>h status. handle (conn w) = Some h
          \<and> trace w' = trace w @
              (if truthy_bool (debug_log_commands (credentials (conn w)))
               then [FireEvent (''On '' @ name (conn w) @ '': '' @ log_sql al sql)] else [])
              @ [DriverCursor h]
              @ (if truthy_str (cursor_precode (credentials (conn w)))
                 then [DriverExecute cur (the (cursor_precode (credentials (conn w)))) None] else [])
              @ [DriverExecute cur sql (Some b), DriverCommit h]
              @ (if truthy_bool (debug_log_commands (credentials (conn w)))
                 then [FireEvent status] else []))"
  using assms unfolding add_query_body_def Let_def
  by (auto simp: bind_Inr do_if_sel split: if_splits)

lemma add_query_success:
  assumes "add_query E sql ab b al w = (Inr (c', cur), w')"
  shows "c' = conn w'
     \<and> (\<exists>h status. handle c' = Some h
          \<and> new_events w w' =
              (if ab \<and> \<not> transaction_open (conn w) then [HostBegin] else [])
              @ [LogDebug (''Using oracle connection '' @ dq @ name c' @ dq @ ''.'')]
              @ (if truthy_bool (debug_log_commands (credentials c'))
                 then [FireEvent (''On '' @ name c' @ '': '' @ log_sql al sql)] else [])
              @ [DriverCursor h]
              @ (if truthy_str (cursor_precode (credentials c'))
                 then [DriverExecute cur (the (cursor_precode (credentials c'))) None] else [])
              @ [DriverExecute cur sql (Some b), DriverCommit h]
              @ (if truthy_bool (debug_log_commands (credentials c'))
                 then [FireEvent status] else []))"
proof -
  let ?w1 = "after_begin E ab w"
  let ?w2 = "emit (LogDebug (''Using oracle connection '' @ dq @ name (conn ?w1) @ dq @ ''.'')) ?w1"
  have body: "add_query_body E sql b al ?w2 = (Inr (c', cur), w')"
    using assms by (simp add: add_query_unfold handler_Inr split: sum.splits)
  from body_success [OF body] show ?thesis
    by (auto simp: new_events_def after_begin_sel(1))
qed

lemma body_returns:
  assumes "never_raises E" and "handle (conn w) = Some h"
  shows "\<exists>x. fst (add_query_body E sql b al w) = Inr x"
  unfolding add_query_body_def Let_def
  by (intro bind_returns) (use assms in \<open>auto simp: do_if_sel never_raises_def\<close>)

lemma add_query_returns:
  assumes "never_raises E" and "handle (conn (after_begin E ab w)) = Some h"
  shows "\<exists>x. fst (add_query E sql ab b al w) = Inr x"
proof -
  let ?w1 = "after_begin E ab w"
  let ?w2 = "emit (LogDebug (''Using oracle connection '' @ dq @ name (conn ?w1) @ dq @ ''.'')) ?w1"
  have b: "fst (do_if (ab \<and> \<not> transaction_open (conn w)) (begin_transaction E) w) = Inr ()"
    using assms(1) by (simp add: do_if_sel begin_sel never_raises_def)
  obtain x where "fst (add_query_body E sql b al ?w2) = Inr x"
    using body_returns [OF assms(1), of ?w2 h sql b al] assms(2) by auto
  then have "fst (exception_handler E sql (add_query_body E sql b al) ?w2) = Inr x"
    by (rule handler_returns)
  then show ?thesis
    using b by (auto simp: add_query_unfold)
qed

lemma body_no_FTC:
  assumes "env_without_FailedToConnect E"
  shows "\<not> raises_FailedToConnect (fst (add_query_body E sql b al w))"
proof -
  have "class_of e \<noteq> DbtFailedToConnectException" if "fst (add_query_body E sql b al w) = Inl e" for e
    using that unfolding add_query_body_def Let_def
    by (elim bind_raises [rotated 2])
      (use assms in \<open>auto simp: do_if_sel env_without_FailedToConnect_def not_raises_iff
         handle_of_def split: if_splits option.splits\<close>)
  then show ?thesis by (simp add: not_raises_iff)
qed

lemma add_query_no_FTC:
  assumes "env_without_FailedToConnect E"
  shows "\<not> raises_FailedToConnect (fst (add_query E sql ab b al w))"
proof (cases "fst (do_if (ab \<and> \<not> transaction_open (conn w)) (begin_transaction E) w)")
  case (Inl e)
  have "\<not> raises_FailedToConnect (fst (do_if (ab \<and> \<not> transaction_open (conn w)) (begin_transaction E) w))"
    using assms by (simp add: do_if_sel begin_sel env_without_FailedToConnect_def raises_FailedToConnect_def)
  with Inl show ?thesis by (simp add: add_query_unfold raises_FailedToConnect_def)
next
  case (Inr u)
  then show ?thesis
    by (simp add: add_query_unfold handler_no_FTC [OF assms body_no_FTC [OF assms]])
qed

lemma add_query_state:
  assumes "host_keeps_fail_state E" and "state (conn w) \<noteq> ''fail''"
  shows "state (conn (snd (add_query E sql ab b al w))) \<noteq> ''fail''"
proof -
  have b: "state (conn (after_begin E ab w)) \<noteq> ''fail''"
    using assms by (simp add: after_begin_sel host_keeps_fail_state_def)
  have h: "state (conn (snd (exception_handler E sql (add_query_body E sql b al)
             (emit ev (after_begin E ab w))))) \<noteq> ''fail''" for ev
    by (rule handler_state [OF assms(1)]) (simp add: body_conn b)
  show ?thesis
    using b h by (simp add: add_query_unfold split: sum.splits)
qed

subsection \<open>Stripping\<close>

lemma dropWhile_hd_id: "xs \<noteq> [] \<Longrightarrow> \<not> P (hd xs) \<Longrightarrow> dropWhile P xs = xs"
  by (cases xs) auto

lemma strip_decomp:
  "\<exists>a b. s = a @ strip s @ b \<and> (\<forall>c \<in> set a \<union> set b. is_space c)"
proof -
  let ?t = "dropWhile is_space s"
  let ?u = "rev ?t"
  have 1: "s = takeWhile is_space s @ ?t" by simp
  have "?t = rev ?u" by simp
  also have "\<dots> = rev (takeWhile is_space ?u @ dropWhile is_space ?u)"
    by (simp only: takeWhile_dropWhile_id)
  also have "\<dots> = rev (dropWhile is_space ?u) @ rev (takeWhile is_space ?u)"
    by (rule rev_append)
  finally have 3: "?t = strip s @ rev (takeWhile is_space ?u)"
    by (simp only: strip_def)
  have "s = takeWhile is_space s @ strip s @ rev (takeWhile is_space ?u)"
    using 1 3 by simp
  moreover have "\<forall>c \<in> set (takeWhile is_space s) \<union> set (rev (takeWhile is_space ?u)). is_space c"
    by (auto dest: set_takeWhileD)
  ultimately show ?thesis by blast
qed

lemma strip_id:
  assumes "s \<noteq> []" and "\<not> is_space (hd s)" and "\<not> is_space (last s)"
  shows "strip s = s"
proof -
  have "dropWhile is_space s = s"
    using assms by (simp add: dropWhile_hd_id)
  moreover have "dropWhile is_space (rev s) = rev s"
    using assms by (simp add: dropWhile_hd_id hd_rev)
  ultimately show ?thesis by (simp add: strip_def)
qed

subsection \<open>Failing to open\<close>

lemma cancel_keeps_conn: "conn (snd (cancel E w)) = conn w"
  by (auto simp: cancel_def Let_def close_def split: sum.splits)

lemma cancel_no_FTC: "\<not> raises_FailedToConnect (fst (cancel E w))"
  by (auto simp: cancel_def Let_def close_def raises_FailedToConnect_def isinstance_Exception_def
      split: sum.splits)

lemma add_begin_query_world: "snd (add_begin_query w) = w"
  by (simp add: add_begin_query_def bind_unfold split: sum.splits)

lemma add_begin_query_no_FTC: "\<not> raises_FailedToConnect (fst (add_begin_query w))"
  by (auto simp: add_begin_query_def bind_unfold handle_of_def raises_FailedToConnect_def
      split: sum.splits option.splits)

text \<open>
  C6, as the code has it. When the driver's connect raises a \<^verbatim>\<open>DatabaseError\<close>, \<open>open\<close> sets the
  handle to \<^verbatim>\<open>None\<close> and the state to fail and raises \<^verbatim>\<open>FailedToConnectException\<close> with the
  driver's message. Any other exception from connect, a driver error that is not a
  \<^verbatim>\<open>DatabaseError\<close> among them, propagates as it is and leaves the connection object
  untouched. No other path sets the state to fail or raises \<^verbatim>\<open>FailedToConnectException\<close>: in
  \<open>open\<close> both happen only after such a \<^verbatim>\<open>DatabaseError\<close>; \<open>cancel\<close> and \<open>add_begin_query\<close>
  leave the connection as it is and never raise it; \<open>add_query\<close> does neither, given that
  the host's own \<^verbatim>\<open>begin\<close> and \<^verbatim>\<open>release\<close> do not set the state to fail and that driver and
  host do not raise \<^verbatim>\<open>FailedToConnectException\<close> themselves.
\<close>

theorem open_failure_only_fail_path:
  "(state (conn w) \<noteq> ''open''
      \<and> drv_connect E
           (trace w @ [LogDebug (attempt_message (connection_method (credentials (conn w)))
                                   (get_dsn (credentials (conn w))))])
           (user (credentials (conn w))) (password (credentials (conn w)))
           (get_dsn (credentials (conn w))) = Inl e
      \<and> isinstance_DatabaseError e
    \<longrightarrow> fst (open E w) = Inl (Exn DbtFailedToConnectException (exn_msg e) None)
        \<and> handle (conn (snd (open E w))) = None
        \<and> state (conn (snd (open E w))) = ''fail'')
   \<and> (state (conn w) \<noteq> ''open''
      \<and> drv_connect E
           (trace w @ [LogDebug (attempt_message (connection_method (credentials (conn w)))
                                   (get_dsn (credentials (conn w))))])
           (user (credentials (conn w))) (password (credentials (conn w)))
           (get_dsn (credentials (conn w))) = Inl e
      \<and> \<not> isinstance_DatabaseError e
    \<longrightarrow> fst (open E w) = Inl e \<and> conn (snd (open E w)) = conn w)
   \<and> (state (conn (snd (open E w))) = ''fail'' \<and> state (conn w) \<noteq> ''fail''
    \<longrightarrow> (\<exists>x. isinstance_DatabaseError x
          \<and> drv_connect E
               (trace w @ [LogDebug (attempt_message (connection_method (credentials (conn w)))
                                       (get_dsn (credentials (conn w))))])
               (user (credentials (conn w))) (password (credentials (conn w)))
               (get_dsn (credentials (conn w))) = Inl x
          \<and> fst (open E w) = Inl (Exn DbtFailedToConnectException (exn_msg x) None)))
   \<and> (env_without_FailedToConnect E \<and> raises_FailedToConnect (fst (open E w))
    \<longrightarrow> state (conn w) \<noteq> ''open'' \<and> state (conn (snd (open E w))) = ''fail''
        \<and> handle (conn (snd (open E w))) = None)
   \<and> conn (snd (cancel E w)) = conn w
   \<and> \<not> raises_FailedToConnect (fst (cancel E w))
   \<and> snd (add_begin_query w) = w
   \<and> \<not> raises_FailedToConnect (fst (add_begin_query w))
   \<and> (host_keeps_fail_state E \<and> state (conn w) \<noteq> ''fail''
    \<longrightarrow> state (conn (snd (add_query E sql auto_begin b abridge_sql_log w))) \<noteq> ''fail'')
   \<and> (env_without_FailedToConnect E
    \<longrightarrow> \<not> raises_FailedToConnect (fst (add_query E sql auto_begin b abridge_sql_log w)))"
proof -
  have a: "fst (open E w) = Inl (Exn DbtFailedToConnectException (exn_msg e) None)
        \<and> handle (conn (snd (open E w))) = None \<and> state (conn (snd (open E w))) = ''fail''"
    if "state (conn w) \<noteq> ''open''"
      and "drv_connect E
           (trace w @ [LogDebug (attempt_message (connection_method (credentials (conn w)))
                                   (get_dsn (credentials (conn w))))])
           (user (credentials (conn w))) (password (credentials (conn w)))
           (get_dsn (credentials (conn w))) = Inl e"
      and "isinstance_DatabaseError e"
    using that by (simp add: open_def Let_def connect_def get_credentials_def)
  have a': "fst (open E w) = Inl e \<and> conn (snd (open E w)) = conn w"
    if "state (conn w) \<noteq> ''open''"
      and "drv_connect E
           (trace w @ [LogDebug (attempt_message (connection_method (credentials (conn w)))
                                   (get_dsn (credentials (conn w))))])
           (user (credentials (conn w))) (password (credentials (conn w)))
           (get_dsn (credentials (conn w))) = Inl e"
      and "\<not> isinstance_DatabaseError e"
    using that by (simp add: open_def Let_def connect_def get_credentials_def)
  have b: "\<exists>x. isinstance_DatabaseError x
          \<and> drv_connect E
               (trace w @ [LogDebug (attempt_message (connection_method (credentials (conn w)))
                                       (get_dsn (credentials (conn w))))])
               (user (credentials (conn w))) (password (credentials (conn w)))
               (get_dsn (credentials (conn w))) = Inl x
          \<and> fst (open E w) = Inl (Exn DbtFailedToConnectException (exn_msg x) None)"
    if "state (conn (snd (open E w))) = ''fail''" and "state (conn w) \<noteq> ''fail''"
    using that
    by (auto simp: open_def Let_def connect_def get_credentials_def split: if_splits sum.splits)
  have c: "state (conn w) \<noteq> ''open'' \<and> state (conn (snd (open E w))) = ''fail''
        \<and> handle (conn (snd (open E w))) = None"
    if "env_without_FailedToConnect E" and "raises_FailedToConnect (fst (open E w))"
    using that
    by (auto simp: open_def Let_def connect_def get_credentials_def raises_FailedToConnect_def
        env_without_FailedToConnect_def split: if_splits sum.splits)
  show ?thesis
    using a a' b c cancel_keeps_conn [of E w] cancel_no_FTC [of E w]
      add_begin_query_world [of w] add_begin_query_no_FTC [of w]
      add_query_state [of E w sql auto_begin b abridge_sql_log]
      add_query_no_FTC [of E sql auto_begin b abridge_sql_log w]
    by blast
qed


lemma quiet_env_facts:
  "env_without_FailedToConnect quiet_env" "host_keeps_fail_state quiet_env" "never_raises quiet_env"
  by (simp_all add: env_without_FailedToConnect_def host_keeps_fail_state_def never_raises_def
      quiet_env_def raises_FailedToConnect_def)

theorem open_failure_only_fail_path_witness:
  "fst (open refusing_env example_world) =
     Inl (Exn DbtFailedToConnectException
       ''ORA-12154: TNS:could not resolve the connect identifier specified'' None)
   \<and> handle (conn (snd (open refusing_env example_world))) = None
   \<and> state (conn (snd (open refusing_env example_world))) = ''fail''
   \<and> state (conn (snd (add_query quiet_env ''select 1 from dual'' True [] True open_world))) \<noteq> ''fail''
   \<and> \<not> raises_FailedToConnect (fst (add_query quiet_env ''select 1 from dual'' True [] True open_world))"
proof -
  have st: "state (conn example_world) \<noteq> ''open''" "state (conn open_world) \<noteq> ''fail''"
    by (simp_all add: example_world_def example_connection_def open_world_def)
  have dr: "drv_connect refusing_env t u p d =
      Inl (Exn CxDatabaseError ''ORA-12154: TNS:could not resolve the connect identifier specified'' None)"
    for t u p d
    by (simp add: refusing_env_def)
  have db: "isinstance_DatabaseError
      (Exn CxDatabaseError ''ORA-12154: TNS:could not resolve the connect identifier specified'' None)"
    by (simp add: isinstance_DatabaseError_def)
  show ?thesis
    using open_failure_only_fail_path
        [of example_world refusing_env
          "Exn CxDatabaseError ''ORA-12154: TNS:could not resolve the connect identifier specified'' None"]
      open_failure_only_fail_path
        [of open_world quiet_env _ "''select 1 from dual''" True "[]" True]
      st dr db quiet_env_facts
    by simp
qed

text \<open>
  The claim as the specification words it (any driver-level error during handle creation)
  fails here: connect raises \<^verbatim>\<open>cx_Oracle.InterfaceError\<close>, which is a \<^verbatim>\<open>cx_Oracle.Error\<close> and
  not a \<^verbatim>\<open>DatabaseError\<close>; \<open>open\<close> raises it as it is, and the state stays as it was.
\<close>

theorem open_interface_error_passes:
  "fst (open unavailable_env example_world)
     = Inl (Exn CxInterfaceError ''Unable to acquire Oracle environment handle'' None)
   \<and> isinstance_cx_Error (Exn CxInterfaceError ''Unable to acquire Oracle environment handle'' None)
   \<and> state (conn (snd (open unavailable_env example_world))) = ''init''
   \<and> state (conn example_world) = ''init''"
  by code_simp

subsection \<open>Translating errors\<close>

text \<open>
  C3, as the code has it. When the body raises a \<^verbatim>\<open>DatabaseError\<close>, the handler logs it and
  calls release. If release returns, or raises a \<^verbatim>\<open>cx_Oracle.Error\<close> (which is logged and
  dropped), the handler raises a \<^verbatim>\<open>DatabaseException\<close> caused by the driver error, whose
  message is the SQL text followed by the driver's message without the white space around
  it (a message that neither starts nor ends with white space is kept as it is). A release
  failure of any other class is not caught: it is what the handler raises.
\<close>

theorem driver_error_query_failure:
  assumes "body w = (Inl e, w1)" and "isinstance_DatabaseError e"
    and "release E (emit (LogError (''Oracle error: '' @ exn_msg e)) w1) = (r, w3)"
  shows "exception_handler E sql body w =
          (case r of
             Inr u \<Rightarrow> (Inl (Exn DbtDatabaseException (sql @ strip (exn_msg e)) (Some e)), w3)
           | Inl x \<Rightarrow>
               if isinstance_cx_Error x then
                 (Inl (Exn DbtDatabaseException (sql @ strip (exn_msg e)) (Some e)),
                  emit (LogError ''Failed to release connection!'') w3)
               else (Inl x, w3))
       \<and> new_events w1 w3 = [LogError (''Oracle error: '' @ exn_msg e), HostRelease]
       \<and> (\<exists>pre post. exn_msg e = pre @ strip (exn_msg e) @ post
             \<and> list_all is_space pre \<and> list_all is_space post)
       \<and> (exn_msg e \<noteq> [] \<and> \<not> is_space (hd (exn_msg e)) \<and> \<not> is_space (last (exn_msg e))
          \<longrightarrow> strip (exn_msg e) = exn_msg e)"
proof -
  have "exception_handler E sql body w =
          (case r of
             Inr u \<Rightarrow> (Inl (Exn DbtDatabaseException (sql @ strip (exn_msg e)) (Some e)), w3)
           | Inl x \<Rightarrow>
               if isinstance_cx_Error x then
                 (Inl (Exn DbtDatabaseException (sql @ strip (exn_msg e)) (Some e)),
                  emit (LogError ''Failed to release connection!'') w3)
               else (Inl x, w3))"
    using assms by (simp add: handler_Inl split: sum.splits)
  moreover have "new_events w1 w3 = [LogError (''Oracle error: '' @ exn_msg e), HostRelease]"
    using release_sel(3) [of E "emit (LogError (''Oracle error: '' @ exn_msg e)) w1"] assms(3)
    by (simp add: new_events_def)
  moreover have "\<exists>pre post. exn_msg e = pre @ strip (exn_msg e) @ post
             \<and> list_all is_space pre \<and> list_all is_space post"
    using strip_decomp [of "exn_msg e"] by (auto simp: list_all_iff)
  moreover have "exn_msg e \<noteq> [] \<and> \<not> is_space (hd (exn_msg e)) \<and> \<not> is_space (last (exn_msg e))
          \<longrightarrow> strip (exn_msg e) = exn_msg e"
    by (simp add: strip_id)
  ultimately show ?thesis by simp
qed

lemma strip_missing_table: "strip (exn_msg missing_table) = ''ORA-00942: table or view does not exist''"
  by code_simp

theorem driver_error_query_failure_witness:
  "exception_handler (release_raising (Exn CxInterfaceError ''not connected'' None))
      ''select * from missing'' (raise_exn missing_table :: unit action) open_world =
     (Inl (Exn DbtDatabaseException
        ''select * from missingORA-00942: table or view does not exist'' (Some missing_table)),
      emit (LogError ''Failed to release connection!'')
        (emit HostRelease (emit (LogError (''Oracle error: '' @ exn_msg missing_table)) open_world)))"
proof -
  let ?E = "release_raising (Exn CxInterfaceError ''not connected'' None)"
  let ?w2 = "emit (LogError (''Oracle error: '' @ exn_msg missing_table)) open_world"
  have h1: "(raise_exn missing_table :: unit action) open_world = (Inl missing_table, open_world)"
    by (simp add: raise_exn_def)
  have h2: "isinstance_DatabaseError missing_table"
    by (simp add: missing_table_def isinstance_DatabaseError_def)
  have h3: "release ?E ?w2 = (Inl (Exn CxInterfaceError ''not connected'' None), emit HostRelease ?w2)"
    by (simp add: release_def release_raising_def emit_def)
  show ?thesis
    using driver_error_query_failure
      [where body = "raise_exn missing_table :: unit action" and w = open_world
         and sql = "''select * from missing''", OF h1 h2 h3]
    by (simp add: strip_missing_table isinstance_cx_Error_def)
qed

text \<open>
  The claim as the specification words it (a failure of release is only logged) fails
  here: the statement fails in the driver with a \<^verbatim>\<open>DatabaseError\<close>, release then fails with a
  plain \<^verbatim>\<open>Exception\<close>, and \<open>add_query\<close> raises that exception and no \<^verbatim>\<open>DatabaseException\<close>.
\<close>

theorem release_failure_escalates:
  "fst (add_query stuck_env ''select * from missing'' False [] False open_world)
     = Inl (Exn PyException ''release failed'' None)"
  by code_simp

text \<open>
  C4, as the code has it. When the body raises an \<^verbatim>\<open>Exception\<close> that is not a
  \<^verbatim>\<open>DatabaseError\<close>, the handler logs the roll back and calls release. When release returns,
  the handler raises the very exception it caught if that is a \<^verbatim>\<open>RuntimeException\<close>, and
  otherwise a new \<^verbatim>\<open>RuntimeException\<close> whose cause is the exception it caught. When release
  raises, the handler raises what release raised.
\<close>

theorem other_error_reraise_or_wrap:
  assumes "body w = (Inl e, w1)"
    and "\<not> isinstance_DatabaseError e" and "isinstance_Exception e"
    and "release E (emit (LogError ''Rolling back transaction.'') w1) = (r, w3)"
  shows "exception_handler E sql body w =
           (case r of
              Inr u \<Rightarrow>
                if isinstance_RuntimeException e then Inl e
                else Inl (Exn DbtRuntimeException (exn_msg e) (Some e))
            | Inl x \<Rightarrow> Inl x, w3)
       \<and> new_events w1 w3 = [LogError ''Rolling back transaction.'', HostRelease]"
proof -
  have "exception_handler E sql body w =
           (case r of
              Inr u \<Rightarrow>
                if isinstance_RuntimeException e then Inl e
                else Inl (Exn DbtRuntimeException (exn_msg e) (Some e))
            | Inl x \<Rightarrow> Inl x, w3)"
    using assms by (simp add: handler_Inl split: sum.splits)
  moreover have "new_events w1 w3 = [LogError ''Rolling back transaction.'', HostRelease]"
    using release_sel(3) [of E "emit (LogError ''Rolling back transaction.'') w1"] assms(4)
    by (simp add: new_events_def)
  ultimately show ?thesis by simp
qed

theorem other_error_reraise_or_wrap_witness:
  "fst (exception_handler quiet_env ''select 1 from dual''
          (raise_exn (Exn DbtRuntimeException ''Operation cancelled'' None) :: unit action) open_world)
     = Inl (Exn DbtRuntimeException ''Operation cancelled'' None)
   \<and> fst (exception_handler quiet_env ''select 1 from dual''
          (raise_exn (Exn PyException ''division by zero'' None) :: unit action) open_world)
     = Inl (Exn DbtRuntimeException ''division by zero''
              (Some (Exn PyException ''division by zero'' None)))"
proof -
  let ?w2 = "emit (LogError ''Rolling back transaction.'') open_world"
  have body: "(raise_exn x :: unit action) open_world = (Inl x, open_world)" for x
    by (simp add: raise_exn_def)
  have rel: "release quiet_env ?w2 = (Inr (), snd (release quiet_env ?w2))"
    by (simp add: release_def quiet_env_def)
  have cls:
    "\<not> isinstance_DatabaseError (Exn DbtRuntimeException ''Operation cancelled'' None)"
    "isinstance_Exception (Exn DbtRuntimeException ''Operation cancelled'' None)"
    "\<not> isinstance_DatabaseError (Exn PyException ''division by zero'' None)"
    "isinstance_Exception (Exn PyException ''division by zero'' None)"
    by (simp_all add: isinstance_DatabaseError_def isinstance_Exception_def)
  show ?thesis
    using other_error_reraise_or_wrap
        [where body = "raise_exn (Exn DbtRuntimeException ''Operation cancelled'' None) :: unit action"
           and w = open_world and sql = "''select 1 from dual''", OF body cls(1) cls(2) rel]
      other_error_reraise_or_wrap
        [where body = "raise_exn (Exn PyException ''division by zero'' None) :: unit action"
           and w = open_world and sql = "''select 1 from dual''", OF body cls(3) cls(4) rel]
    by (simp add: isinstance_RuntimeException_def)
qed

text \<open>
  The claim as the specification words it (release, then the same error or a wrapper)
  fails when release raises. A \<^verbatim>\<open>RuntimeException\<close> from the body is lost to the exception
  from release; and \<open>add_query\<close> on a connection without a handle, where reading
  \<^verbatim>\<open>.cursor\<close> raises \<^verbatim>\<open>AttributeError\<close>, raises the exception from release and no
  \<^verbatim>\<open>RuntimeException\<close>.
\<close>

theorem release_failure_replaces_reraise:
  "fst (exception_handler (release_raising (Exn PyException ''release failed'' None))
          ''select 1 from dual''
          (raise_exn (Exn DbtRuntimeException ''Operation cancelled'' None) :: unit action) open_world)
     = Inl (Exn PyException ''release failed'' None)
   \<and> fst (add_query (release_raising (Exn PyException ''release failed'' None))
          ''select 1 from dual'' False [] False example_world)
     = Inl (Exn PyException ''release failed'' None)"
  by code_simp

text \<open>
  C10. After an \<^verbatim>\<open>Exception\<close> that is not a \<^verbatim>\<open>DatabaseError\<close>, release is called without a
  guard: whatever release raises is what the handler raises, in place of the exception it
  caught. After a \<^verbatim>\<open>DatabaseError\<close>, a release failure that is a \<^verbatim>\<open>cx_Oracle.Error\<close> is caught
  and logged, and the handler goes on to raise its \<^verbatim>\<open>DatabaseException\<close>.
\<close>

theorem unguarded_release_replaces_error:
  assumes "body w = (Inl e, w1)"
  shows "(\<not> isinstance_DatabaseError e \<and> isinstance_Exception e
          \<and> release E (emit (LogError ''Rolling back transaction.'') w1) = (Inl r, w3)
          \<longrightarrow> exception_handler E sql body w = (Inl r, w3))
       \<and> (isinstance_DatabaseError e \<and> isinstance_cx_Error r
          \<and> release E (emit (LogError (''Oracle error: '' @ exn_msg e)) w1) = (Inl r, w3)
          \<longrightarrow> exception_handler E sql body w =
                (Inl (Exn DbtDatabaseException (sql @ strip (exn_msg e)) (Some e)),
                 emit (LogError ''Failed to release connection!'') w3))"
  using assms by (simp add: handler_Inl)

theorem unguarded_release_replaces_error_witness:
  "fst (exception_handler (release_raising (Exn CxInterfaceError ''not connected'' None))
          ''select 1 from dual''
          (raise_exn (Exn PyException ''division by zero'' None) :: unit action) open_world)
     = Inl (Exn CxInterfaceError ''not connected'' None)
   \<and> fst (exception_handler (release_raising (Exn CxInterfaceError ''not connected'' None))
          ''select 1 from dual'' (raise_exn missing_table :: unit action) open_world)
     = Inl (Exn DbtDatabaseException
              ''select 1 from dualORA-00942: table or view does not exist'' (Some missing_table))"
proof -
  let ?E = "release_raising (Exn CxInterfaceError ''not connected'' None)"
  have body: "(raise_exn x :: unit action) open_world = (Inl x, open_world)" for x
    by (simp add: raise_exn_def)
  have rel: "release ?E x = (Inl (Exn CxInterfaceError ''not connected'' None), emit HostRelease x)" for x
    by (simp add: release_def release_raising_def emit_def)
  have cls:
    "\<not> isinstance_DatabaseError (Exn PyException ''division by zero'' None)"
    "isinstance_Exception (Exn PyException ''division by zero'' None)"
    "isinstance_DatabaseError missing_table"
    "isinstance_cx_Error (Exn CxInterfaceError ''not connected'' None)"
    by (simp_all add: isinstance_DatabaseError_def isinstance_Exception_def isinstance_cx_Error_def
        missing_table_def)
  show ?thesis
    using unguarded_release_replaces_error
        [where body = "raise_exn (Exn PyException ''division by zero'' None) :: unit action"
           and w = open_world and sql = "''select 1 from dual''" and E = ?E
           and r = "Exn CxInterfaceError ''not connected'' None"
           and ?w3.0 = "emit HostRelease (emit (LogError ''Rolling back transaction.'') open_world)",
         OF body]
      unguarded_release_replaces_error
        [where body = "raise_exn missing_table :: unit action"
           and w = open_world and sql = "''select 1 from dual''" and E = ?E
           and r = "Exn CxInterfaceError ''not connected'' None"
           and ?w3.0 = "emit HostRelease
              (emit (LogError (''Oracle error: '' @ exn_msg missing_table)) open_world)",
         OF body]
      rel cls
    by (simp add: strip_missing_table)
qed

subsection \<open>Running a statement: the claims\<close>

lemma add_query_new_events:
  "\<exists>d. new_events w (snd (add_query E sql ab b al w)) =
          (if ab \<and> \<not> transaction_open (conn w) then [HostBegin] else []) @ d
       \<and> query_events (''On '' @ name (conn (after_begin E ab w)) @ '': '' @ log_sql al sql) sql b d"
  using add_query_grows [of E ab w al sql b]
  by (auto simp: grows_by_def new_events_def after_begin_sel(1))

text \<open>
  C7. Every call of \<open>add_query\<close> first calls \<^verbatim>\<open>begin\<close> exactly when \<open>auto_begin\<close> is set and no
  transaction is open, and not otherwise. A call that returns has done, in this order and
  with nothing in between: the optional begin, the debug line, the optional statement
  log, the cursor creation, the precode statement on that cursor when one is configured,
  the statement with its bindings on the same cursor, the commit, and the optional status
  log; it returns the connection and that cursor. And it does return when no call raises
  and the connection has a handle.
\<close>

theorem add_query_sequence:
  "(\<exists>d. new_events w (snd (add_query E sql auto_begin b abridge_sql_log w)) =
           (if auto_begin \<and> \<not> transaction_open (conn w) then [HostBegin] else []) @ d
         \<and> HostBegin \<notin> set d)
   \<and> (add_query E sql auto_begin b abridge_sql_log w = (Inr (c', cur), w')
      \<longrightarrow> c' = conn w'
        \<and> (\<exists>h status. handle c' = Some h
             \<and> new_events w w' =
                 (if auto_begin \<and> \<not> transaction_open (conn w) then [HostBegin] else [])
                 @ [LogDebug (''Using oracle connection '' @ dq @ name c' @ dq @ ''.'')]
                 @ (if truthy_bool (debug_log_commands (credentials c'))
                    then [FireEvent (''On '' @ name c' @ '': '' @ log_sql abridge_sql_log sql)]
                    else [])
                 @ [DriverCursor h]
                 @ (if truthy_str (cursor_precode (credentials c'))
                    then [DriverExecute cur (the (cursor_precode (credentials c'))) None]
                    else [])
                 @ [DriverExecute cur sql (Some b), DriverCommit h]
                 @ (if truthy_bool (debug_log_commands (credentials c'))
                    then [FireEvent status] else [])))
   \<and> (never_raises E \<and> handle (conn (after_begin E auto_begin w)) \<noteq> None
      \<longrightarrow> (\<exists>c k. fst (add_query E sql auto_begin b abridge_sql_log w) = Inr (c, k)))"
proof -
  have first: "\<exists>d. new_events w (snd (add_query E sql auto_begin b abridge_sql_log w)) =
           (if auto_begin \<and> \<not> transaction_open (conn w) then [HostBegin] else []) @ d
         \<and> HostBegin \<notin> set d"
    using add_query_new_events [of w E sql auto_begin b abridge_sql_log]
    by (auto simp: query_events_def)
  have returned: "add_query E sql auto_begin b abridge_sql_log w = (Inr (c', cur), w')
      \<longrightarrow> c' = conn w'
        \<and> (\<exists>h status. handle c' = Some h
             \<and> new_events w w' =
                 (if auto_begin \<and> \<not> transaction_open (conn w) then [HostBegin] else [])
                 @ [LogDebug (''Using oracle connection '' @ dq @ name c' @ dq @ ''.'')]
                 @ (if truthy_bool (debug_log_commands (credentials c'))
                    then [FireEvent (''On '' @ name c' @ '': '' @ log_sql abridge_sql_log sql)]
                    else [])
                 @ [DriverCursor h]
                 @ (if truthy_str (cursor_precode (credentials c'))
                    then [DriverExecute cur (the (cursor_precode (credentials c'))) None]
                    else [])
                 @ [DriverExecute cur sql (Some b), DriverCommit h]
                 @ (if truthy_bool (debug_log_commands (credentials c'))
                    then [FireEvent status] else []))"
    by (rule impI) (rule add_query_success)
  have returns: "never_raises E \<and> handle (conn (after_begin E auto_begin w)) \<noteq> None
      \<longrightarrow> (\<exists>c k. fst (add_query E sql auto_begin b abridge_sql_log w) = Inr (c, k))"
  proof
    assume "never_raises E \<and> handle (conn (after_begin E auto_begin w)) \<noteq> None"
    then obtain h where "never_raises E" and "handle (conn (after_begin E auto_begin w)) = Some h"
      by auto
    from add_query_returns [OF this, of sql b abridge_sql_log]
    show "\<exists>c k. fst (add_query E sql auto_begin b abridge_sql_log w) = Inr (c, k)"
      by auto
  qed
  show ?thesis
    by (rule conjI [OF first conjI [OF returned returns]])
qed

lemma example_run:
  "add_query quiet_env ''select 1 from dual'' True [] True open_world =
     (Inr (conn (snd (add_query quiet_env ''select 1 from dual'' True [] True open_world)), 3),
      snd (add_query quiet_env ''select 1 from dual'' True [] True open_world))"
  "conn (snd (add_query quiet_env ''select 1 from dual'' True [] True open_world)) =
     (conn open_world)\<lparr>transaction_open := True\<rparr>"
  by code_simp+

theorem add_query_sequence_witness:
  "\<exists>status.
     new_events open_world (snd (add_query quiet_env ''select 1 from dual'' True [] True open_world)) =
       [HostBegin,
        LogDebug (''Using oracle connection '' @ dq @ ''master'' @ dq @ ''.''),
        FireEvent ''On master: select 1 from dual...'',
        DriverCursor 7,
        DriverExecute 3 ''ALTER SESSION SET CURRENT_SCHEMA = ANALYTICS'' None,
        DriverExecute 3 ''select 1 from dual'' (Some []),
        DriverCommit 7,
        FireEvent status]"
  using add_query_sequence
      [of open_world quiet_env "''select 1 from dual''" True "[]" True
        "conn (snd (add_query quiet_env ''select 1 from dual'' True [] True open_world))" 3
        "snd (add_query quiet_env ''select 1 from dual'' True [] True open_world)"]
    example_run
  by (auto simp: open_world_def example_connection_def example_credentials_def truthy_bool_def
      truthy_str_def log_sql_def)

text \<open>
  C9. With \<open>abridge_sql_log\<close> set, the text logged for the statement is the first 512
  characters of the SQL followed by three dots, also when the SQL has 512 characters or
  fewer; the only event \<open>add_query\<close> fires besides the status line carries exactly that
  text after the connection name. Whatever the flag, a statement executed with bindings
  is the full SQL with the given bindings, and a call that returns has executed it once.
\<close>

theorem abridged_log_sql:
  "log_sql True sql = take 512 sql @ ''...''
   \<and> (length sql \<le> 512 \<longrightarrow> log_sql True sql = sql @ ''...'')
   \<and> (\<forall>m. FireEvent m \<in> set (new_events w (snd (add_query E sql auto_begin b True w)))
        \<longrightarrow> m = ''On '' @ name (conn (after_begin E auto_begin w)) @ '': '' @ take 512 sql @ ''...''
          \<or> take 12 m = ''SQL status: '')
   \<and> set (executed_statements
        (new_events w (snd (add_query E sql auto_begin b abridge_sql_log w)))) \<subseteq> {(sql, b)}
   \<and> (add_query E sql auto_begin b abridge_sql_log w = (Inr (c', cur), w')
      \<longrightarrow> executed_statements (new_events w w') = [(sql, b)]
        \<and> (truthy_bool (debug_log_commands (credentials c'))
           \<longrightarrow> FireEvent (''On '' @ name c' @ '': '' @ log_sql abridge_sql_log sql)
                 \<in> set (new_events w w')))"
proof -
  have p1: "log_sql True sql = take 512 sql @ ''...''"
    by (simp add: log_sql_def)
  have p2: "length sql \<le> 512 \<longrightarrow> log_sql True sql = sql @ ''...''"
    by (simp add: log_sql_def)
  have p3: "\<forall>m. FireEvent m \<in> set (new_events w (snd (add_query E sql auto_begin b True w)))
        \<longrightarrow> m = ''On '' @ name (conn (after_begin E auto_begin w)) @ '': '' @ take 512 sql @ ''...''
          \<or> take 12 m = ''SQL status: ''"
    using add_query_new_events [of w E sql auto_begin b True]
    by (auto simp: query_events_def log_sql_def split: if_splits)
  have p4: "set (executed_statements
        (new_events w (snd (add_query E sql auto_begin b abridge_sql_log w)))) \<subseteq> {(sql, b)}"
    using add_query_new_events [of w E sql auto_begin b abridge_sql_log]
    by (auto simp: query_events_def split: if_splits)
  have p5: "add_query E sql auto_begin b abridge_sql_log w = (Inr (c', cur), w')
      \<longrightarrow> executed_statements (new_events w w') = [(sql, b)]
        \<and> (truthy_bool (debug_log_commands (credentials c'))
           \<longrightarrow> FireEvent (''On '' @ name c' @ '': '' @ log_sql abridge_sql_log sql)
                 \<in> set (new_events w w'))"
  proof
    assume run: "add_query E sql auto_begin b abridge_sql_log w = (Inr (c', cur), w')"
    from add_query_success [OF run]
    show "executed_statements (new_events w w') = [(sql, b)]
        \<and> (truthy_bool (debug_log_commands (credentials c'))
           \<longrightarrow> FireEvent (''On '' @ name c' @ '': '' @ log_sql abridge_sql_log sql)
                 \<in> set (new_events w w'))"
      by auto
  qed
  show ?thesis
    by (rule conjI [OF p1 conjI [OF p2 conjI [OF p3 conjI [OF p4 p5]]]])
qed

theorem abridged_log_sql_witness:
  "log_sql True ''select 1 from dual'' = ''select 1 from dual...''
   \<and> log_sql True (replicate 600 (CHR ''x'')) = replicate 512 (CHR ''x'') @ ''...''
   \<and> executed_statements
        (new_events open_world (snd (add_query quiet_env ''select 1 from dual'' True [] True open_world)))
       = [(''select 1 from dual'', [])]
   \<and> FireEvent ''On master: select 1 from dual...''
        \<in> set (new_events open_world
                 (snd (add_query quiet_env ''select 1 from dual'' True [] True open_world)))"
  using abridged_log_sql
      [of "''select 1 from dual''" open_world quiet_env True "[]" True
        "conn (snd (add_query quiet_env ''select 1 from dual'' True [] True open_world))" 3
        "snd (add_query quiet_env ''select 1 from dual'' True [] True open_world)"]
    abridged_log_sql [of "replicate 600 (CHR ''x'')"]
    example_run
  by (simp add: open_world_def example_connection_def example_credentials_def truthy_bool_def
      log_sql_def)

end
